theory Spec2Isabelle
  imports Complex_Main "HOL-Library.Word"
begin

section \<open>JavaScript values and property reads\<close>

text \<open>
  The module \<open>ol/source/ogcTileUtil.js\<close> reads properties of plain object literals
  (\<open>knownMapMediaTypes[link.type]\<close>, \<open>localContext[p]\<close>), tests values for
  truthiness (\<open>if (!tileUrlTemplate)\<close>) and lets \<open>String.prototype.replace\<close> convert
  a callback's result to a string.  The values that can flow through these places are
  collected in one datatype; \<open>NativeFunction n\<close> is the built-in function named \<open>n\<close>
  and \<open>ObjectPrototype\<close> is the object \<open>Object.prototype\<close> itself.

  A JavaScript number is a double.  The numbers the module computes with and prints are
  tile coordinates, which are integers.  Every integer \<open>n\<close> with \<open>-2^53 \<le> n < 2^53\<close> is a
  double, and on this range the one arithmetic expression of the module,
  \<open>-tileCoord[2] - 1\<close>, is exact and stays in the range (it is the two's complement
  \<open>NOT\<close>).  \<open>Num\<close> therefore carries a 54-bit word read as a signed integer (\<open>sint\<close>):
  numbers that are no integers, or that lie outside this range, are outside the model.
\<close>

type_synonym jsint = "54 word"

datatype jsvalue =
    Undefined
  | Bool bool
  | Num jsint
  | Str string
  | NativeFunction string
  | ObjectPrototype

text \<open>\<open>ToBoolean\<close>: \<open>undefined\<close>, \<open>false\<close>, \<open>0\<close> and the empty string are falsy.\<close>

fun toBoolean :: "jsvalue \<Rightarrow> bool" where
  "toBoolean Undefined = False"
| "toBoolean (Bool b) = b"
| "toBoolean (Num n) = (n \<noteq> 0)"
| "toBoolean (Str s) = (s \<noteq> [])"
| "toBoolean (NativeFunction n) = True"
| "toBoolean ObjectPrototype = True"

text \<open>
  A variable declared with \<open>let x;\<close> and later assigned a string is modelled as a
  \<open>string option\<close>, \<open>None\<close> being \<open>undefined\<close>.  Its truthiness is that of the
  corresponding value.
\<close>

fun truthy :: "string option \<Rightarrow> bool" where
  "truthy None = False"
| "truthy (Some s) = (s \<noteq> [])"

text \<open>
  The properties every object literal inherits from \<open>Object.prototype\<close>.  A property
  read \<open>obj[key]\<close> that finds no own property continues along the prototype chain, so for
  these keys it yields the inherited built-in instead of \<open>undefined\<close>.
\<close>

definition objectPrototype :: "(string \<times> jsvalue) list" where
  "objectPrototype =
    [(''constructor'', NativeFunction ''Object''),
     (''__defineGetter__'', NativeFunction ''__defineGetter__''),
     (''__defineSetter__'', NativeFunction ''__defineSetter__''),
     (''hasOwnProperty'', NativeFunction ''hasOwnProperty''),
     (''__lookupGetter__'', NativeFunction ''__lookupGetter__''),
     (''__lookupSetter__'', NativeFunction ''__lookupSetter__''),
     (''isPrototypeOf'', NativeFunction ''isPrototypeOf''),
     (''propertyIsEnumerable'', NativeFunction ''propertyIsEnumerable''),
     (''toString'', NativeFunction ''toString''),
     (''valueOf'', NativeFunction ''valueOf''),
     (''__proto__'', ObjectPrototype),
     (''toLocaleString'', NativeFunction ''toLocaleString'')]"

text \<open>An object literal is the list of its own properties; \<open>getProp\<close> is \<open>obj[key]\<close>.\<close>

type_synonym jsobject = "(string \<times> jsvalue) list"

definition getProp :: "jsobject \<Rightarrow> string \<Rightarrow> jsvalue" where
  "getProp obj key =
    (case map_of obj key of
       Some v \<Rightarrow> v
     | None \<Rightarrow> (case map_of objectPrototype key of Some v \<Rightarrow> v | None \<Rightarrow> Undefined))"

section \<open>Link selection\<close>

record Link =
  rel :: string
  href :: string
  type :: string

text \<open>
  The errors the module can raise: \<open>new Error(message)\<close>, the \<open>TypeError\<close> of a property
  read on \<open>undefined\<close>, and the \<open>AssertionError\<close> (with its numeric code) by which the
  library's constructors reject their options.
\<close>

datatype error = Error string | TypeError | AssertionError nat

definition knownMapMediaTypes :: jsobject where
  "knownMapMediaTypes =
    [(''image/png'', Bool True),
     (''image/jpeg'', Bool True),
     (''image/gif'', Bool True),
     (''image/webp'', Bool True)]"

definition knownVectorMediaTypes :: jsobject where
  "knownVectorMediaTypes =
    [(''application/vnd.mapbox-vector-tile'', Bool True),
     (''application/geo+json'', Bool True)]"

text \<open>\<open>s.indexOf(p) === 0\<close> holds exactly when \<open>p\<close> is a prefix of \<open>s\<close>.\<close>

definition indexOfIsZero :: "string \<Rightarrow> string \<Rightarrow> bool" where
  "indexOfIsZero s p = (take (length p) s = p)"

definition itemLinkMessage :: string where
  "itemLinkMessage = ''Could not find '' @ [CHR 0x22] @ ''item'' @ [CHR 0x22] @ '' link''"

text \<open>
  The \<open>for\<close> loop of \<open>getMapTileUrlTemplate\<close>, over the links not yet visited.  The
  argument \<open>fallbackUrlTemplate\<close> is the loop's variable of that name; the result is the
  pair \<open>(tileUrlTemplate, fallbackUrlTemplate)\<close> when the loop ends, by \<open>break\<close> or by
  running off the list.
\<close>

fun mapLoop :: "Link list \<Rightarrow> string option \<Rightarrow> string option \<Rightarrow> string option \<times> string option" where
  "mapLoop [] mediaType fallbackUrlTemplate = (None, fallbackUrlTemplate)"
| "mapLoop (link # links) mediaType fallbackUrlTemplate =
    (if rel link = ''item'' then
       if Some (type link) = mediaType then (Some (href link), fallbackUrlTemplate)
       else if toBoolean (getProp knownMapMediaTypes (type link)) then
         mapLoop links mediaType (Some (href link))
       else if \<not> truthy fallbackUrlTemplate \<and> indexOfIsZero (type link) ''image/'' then
         mapLoop links mediaType (Some (href link))
       else mapLoop links mediaType fallbackUrlTemplate
     else mapLoop links mediaType fallbackUrlTemplate)"

text \<open>The code after the loop, shared by both selectors.\<close>

definition selectTemplate :: "string option \<times> string option \<Rightarrow> error + string" where
  "selectTemplate r =
    (case r of (tileUrlTemplate, fallbackUrlTemplate) \<Rightarrow>
      (if \<not> truthy tileUrlTemplate then
         (if truthy fallbackUrlTemplate then
            (case fallbackUrlTemplate of Some f \<Rightarrow> Inr f | None \<Rightarrow> Inl (Error itemLinkMessage))
          else Inl (Error itemLinkMessage))
       else (case tileUrlTemplate of Some t \<Rightarrow> Inr t | None \<Rightarrow> Inl (Error itemLinkMessage))))"

definition getMapTileUrlTemplate :: "Link list \<Rightarrow> string option \<Rightarrow> error + string" where
  "getMapTileUrlTemplate links mediaType = selectTemplate (mapLoop links mediaType None)"

fun vectorLoop :: "Link list \<Rightarrow> string option \<Rightarrow> string option \<Rightarrow> string option \<times> string option" where
  "vectorLoop [] mediaType fallbackUrlTemplate = (None, fallbackUrlTemplate)"
| "vectorLoop (link # links) mediaType fallbackUrlTemplate =
    (if rel link = ''item'' then
       if Some (type link) = mediaType then (Some (href link), fallbackUrlTemplate)
       else if toBoolean (getProp knownVectorMediaTypes (type link)) then
         vectorLoop links mediaType (Some (href link))
       else vectorLoop links mediaType fallbackUrlTemplate
     else vectorLoop links mediaType fallbackUrlTemplate)"

definition getVectorTileUrlTemplate :: "Link list \<Rightarrow> string option \<Rightarrow> error + string" where
  "getVectorTileUrlTemplate links mediaType = selectTemplate (vectorLoop links mediaType None)"

section \<open>Strings\<close>

text \<open>\<open>s.includes(sub)\<close>: \<open>sub\<close> occurs in \<open>s\<close> as a contiguous substring.\<close>

fun stringIncludes :: "string \<Rightarrow> string \<Rightarrow> bool" where
  "stringIncludes [] sub = (sub = [])"
| "stringIncludes (c # cs) sub = (indexOfIsZero (c # cs) sub \<or> stringIncludes cs sub)"

text \<open>The decimal numeral of a natural number and of an integer.\<close>

fun natDecimal :: "nat \<Rightarrow> string" where
  "natDecimal n =
    (if n < 10 then [''0123456789'' ! n]
     else natDecimal (n div 10) @ [''0123456789'' ! (n mod 10)])"

definition decimal :: "int \<Rightarrow> string" where
  "decimal n = (if n < 0 then CHR ''-'' # natDecimal (nat (- n)) else natDecimal (nat n))"

text \<open>
  \<open>Number::toString\<close> on the integers of the model: an integer of magnitude at most
  \<open>2^53\<close> prints as its decimal numeral (exponent notation starts at \<open>10^21\<close>).
\<close>

definition numberToString :: "jsint \<Rightarrow> string" where
  "numberToString n = decimal (sint n)"

text \<open>
  \<open>ToString\<close>, as \<open>String.prototype.replace\<close> applies it to the callback's result.  A
  built-in function prints as its source text, which ECMAScript fixes to the shape
  \<open>function name() { [native code] }\<close>; the spacing below is that of V8.
\<close>

fun toString :: "jsvalue \<Rightarrow> string" where
  "toString Undefined = ''undefined''"
| "toString (Bool b) = (if b then ''true'' else ''false'')"
| "toString (Num n) = numberToString n"
| "toString (Str s) = s"
| "toString (NativeFunction n) = ''function '' @ n @ ''() { [native code] }''"
| "toString ObjectPrototype = ''[object Object]''"

text \<open>The character class \<open>\w\<close> of a regular expression without flags.\<close>

definition isWordChar :: "char \<Rightarrow> bool" where
  "isWordChar c =
    (c \<in> set (''abcdefghijklmnopqrstuvwxyz'' @ ''ABCDEFGHIJKLMNOPQRSTUVWXYZ'' @ ''0123456789_''))"

text \<open>
  One attempt to match \<open>/\{(\w+?)\}/\<close> at the start of \<open>s\<close>.  The lazy \<open>\w+?\<close> grows
  one word character at a time until a \<open>}\<close> follows; since \<open>}\<close> is no word character,
  the match succeeds exactly when the maximal run of word characters after the \<open>{\<close> is
  not empty and is followed by \<open>}\<close>.  The result is the captured group and the text
  after the match.
\<close>

definition matchPlaceholder :: "string \<Rightarrow> (string \<times> string) option" where
  "matchPlaceholder s =
    (case s of
       [] \<Rightarrow> None
     | c # cs \<Rightarrow>
        if c = CHR ''{'' then
          (case dropWhile isWordChar cs of
             [] \<Rightarrow> None
           | d # ds \<Rightarrow>
              if d = CHR ''}'' \<and> takeWhile isWordChar cs \<noteq> [] then Some (takeWhile isWordChar cs, ds)
              else None)
        else None)"

lemma matchPlaceholder_shorter:
  "matchPlaceholder s = Some (name, rest) \<Longrightarrow> length rest < length s"
proof -
  assume m: "matchPlaceholder s = Some (name, rest)"
  then obtain c cs where s: "s = c # cs"
    by (cases s) (auto simp: matchPlaceholder_def)
  from m s obtain d where d: "dropWhile isWordChar cs = d # rest"
    by (auto simp: matchPlaceholder_def split: if_splits list.splits)
  have "length (dropWhile isWordChar cs) \<le> length cs"
    by (rule length_dropWhile_le)
  with d s show ?thesis by simp
qed

text \<open>
  \<open>template.replace(/\{(\w+?)\}/g, function (m, p) { return f(p); })\<close>: the global
  replace scans from the left, replaces each match by the string of the callback's
  result and resumes after the match.
\<close>

function replacePlaceholders :: "string \<Rightarrow> (string \<Rightarrow> jsvalue) \<Rightarrow> string" where
  "replacePlaceholders [] f = []"
| "replacePlaceholders (c # cs) f =
    (case matchPlaceholder (c # cs) of
       Some (name, rest) \<Rightarrow> toString (f name) @ replacePlaceholders rest f
     | None \<Rightarrow> c # replacePlaceholders cs f)"
  by pat_completeness auto
termination
  by (relation "measure (\<lambda>(s, f). length s)") (auto dest: matchPlaceholder_shorter)

section \<open>Tile matrix sets\<close>

text \<open>
  The typedefs of the module.  The property \<open>id\<close> of a tile matrix is the field
  \<open>matrixId\<close>, that of a tile matrix set is \<open>setId\<close>, and \<open>context\<close> of the source
  info is \<open>callerContext\<close>, since Isabelle has these names in use.  Numbers the module
  only passes on (cell sizes, coordinates, widths and heights) are \<open>real\<close>.
\<close>

record TileMatrix =
  matrixId :: string
  cellSize :: real
  pointOfOrigin :: "real list"
  cornerOfOrigin :: "string option"
  matrixWidth :: real
  matrixHeight :: real
  tileWidth :: real
  tileHeight :: real

record TileMatrixSet =
  setId :: string
  crs :: string
  tileMatrices :: "TileMatrix list"

text \<open>
  Of a projection the module uses \<open>getAxisOrientation()\<close> only.  The caller's
  \<open>SourceInfo\<close> may leave out the media type, the projection and the context.
\<close>

record Projection =
  axisOrientation :: string

record SourceInfo =
  url :: string
  mediaType :: "string option"
  projection :: "Projection option"
  callerContext :: "jsobject option"

text \<open>
  The options object handed to the \<open>TileGrid\<close> constructor.  Each array is created with
  \<open>new Array(length)\<close>, so an element is \<open>None\<close> until the loop has assigned it.  An
  origin read out of range (\<open>origin[1]\<close> of a shorter array) is \<open>undefined\<close>, hence the
  inner \<open>real option\<close>.
\<close>

record TileGridOptions =
  origins :: "real option list option list"
  resolutions :: "real option list"
  sizes :: "real list option list"
  tileSizes :: "real list option list"

text \<open>\<open>xs[i]\<close> and \<open>xs[i] = v\<close> on a JavaScript array: a read out of range is
  \<open>undefined\<close>, a write out of range extends the array with holes.\<close>

definition element :: "'a list \<Rightarrow> nat \<Rightarrow> 'a option" where
  "element xs i = (if i < length xs then Some (xs ! i) else None)"

definition arraySet :: "'a option list \<Rightarrow> nat \<Rightarrow> 'a \<Rightarrow> 'a option list" where
  "arraySet xs i v =
    (if i < length xs then xs[i := Some v]
     else xs @ replicate (i - length xs) None @ [Some v])"

text \<open>The loop of \<open>parseTileMatrixSet\<close> from index \<open>i\<close> on, threading the four arrays.\<close>

function parseLoop :: "bool \<Rightarrow> TileMatrix list \<Rightarrow> nat \<Rightarrow> TileGridOptions \<Rightarrow> TileGridOptions" where
  "parseLoop backwards matrices i arrays =
    (if i < length matrices then
       (let matrix = matrices ! i;
            origin = pointOfOrigin matrix
        in parseLoop backwards matrices (Suc i)
             \<lparr>origins = arraySet (origins arrays) i
                 (if backwards then [element origin 1, element origin 0] else map Some origin),
              resolutions = arraySet (resolutions arrays) i (cellSize matrix),
              sizes = arraySet (sizes arrays) i [matrixWidth matrix, matrixHeight matrix],
              tileSizes = arraySet (tileSizes arrays) i [tileWidth matrix, tileHeight matrix]\<rparr>)
     else arrays)"
  by pat_completeness auto
termination
  by (relation "measure (\<lambda>(backwards, matrices, i, arrays). length matrices - i)") auto

section \<open>The URL function\<close>

definition BOTTOM_LEFT_ORIGIN :: string where
  "BOTTOM_LEFT_ORIGIN = ''bottomLeft''"

text \<open>
  Modelled from the spec: \<open>assign\<close> of \<open>ol/obj.js\<close> is not among the sources.  The
  specification says that the caller-supplied context key/value pairs are overlaid on
  the computed entries and that the caller's values win on a key collision; without a
  caller context nothing is overlaid.  Own properties are looked up front to back, so
  the caller's entries go in front.
\<close>

definition assign :: "jsobject \<Rightarrow> jsobject option \<Rightarrow> jsobject" where
  "assign target source = (case source of None \<Rightarrow> target | Some s \<Rightarrow> s @ target)"

text \<open>
  \<open>tileUrlFunction\<close>, closed over the matrices, the caller's context, the base URL and
  the URL template.  \<open>resolveUrl\<close> of \<open>ol/net.js\<close> is a parameter.  A tile coordinate is
  \<open>[z, x, y]\<close> of integers; \<open>None\<close> is an absent coordinate, and the result \<open>Inr None\<close>
  is the return value \<open>undefined\<close>.  When \<open>z\<close> is no index of the matrix array,
  \<open>matrices[z]\<close> is \<open>undefined\<close> and reading its \<open>cornerOfOrigin\<close> throws a \<open>TypeError\<close>.
\<close>

definition tileUrlFunction ::
  "(string \<Rightarrow> string \<Rightarrow> string) \<Rightarrow> TileMatrix list \<Rightarrow> jsobject option \<Rightarrow> string \<Rightarrow> string
    \<Rightarrow> (jsint \<times> jsint \<times> jsint) option \<Rightarrow> error + string option" where
  "tileUrlFunction resolveUrl matrices ctx base tileUrlTemplate tileCoord =
    (case tileCoord of
       None \<Rightarrow> Inr None
     | Some (z, x, y) \<Rightarrow>
        (case (if 0 \<le> sint z then element matrices (nat (sint z)) else None) of
           None \<Rightarrow> Inl TypeError
         | Some matrix \<Rightarrow>
            (let upsideDown = (cornerOfOrigin matrix = Some BOTTOM_LEFT_ORIGIN);
                 localContext = assign
                   [(''tileMatrix'', Str (matrixId matrix)),
                    (''tileCol'', Num x),
                    (''tileRow'', Num (if upsideDown then - y - 1 else y))] ctx;
                 url = replacePlaceholders tileUrlTemplate (\<lambda>p. getProp localContext p)
             in Inr (Some (resolveUrl base url)))))"

section \<open>Parsing a tile matrix set\<close>

text \<open>
  The result of \<open>parseTileMatrixSet\<close>.  The class \<open>TileGrid\<close> is not part of the module,
  so the type of a tile grid is a parameter.
\<close>

record 'g TileSetInfo =
  grid :: 'g
  urlTemplate :: string
  urlFunction :: "(jsint \<times> jsint \<times> jsint) option \<Rightarrow> error + string option"

text \<open>
  The first lines of \<open>parseTileMatrixSet\<close>: the caller's projection if there is one,
  otherwise the registry's answer for the matrix set's CRS, otherwise an error.  The
  projection registry (\<open>get\<close> of \<open>ol/proj.js\<close>) is the parameter \<open>getProjection\<close>.
\<close>

definition resolveProjection ::
  "(string \<Rightarrow> Projection option) \<Rightarrow> SourceInfo \<Rightarrow> TileMatrixSet \<Rightarrow> error + Projection" where
  "resolveProjection getProjection sourceInfo tileMatrixSet =
    (case projection sourceInfo of
       Some p \<Rightarrow> Inr p
     | None \<Rightarrow>
        (case getProjection (crs tileMatrixSet) of
           Some p \<Rightarrow> Inr p
         | None \<Rightarrow> Inl (Error (''Unsupported CRS: '' @ crs tileMatrixSet))))"

text \<open>
  The options object \<open>{origins, resolutions, sizes, tileSizes}\<close> that
  \<open>parseTileMatrixSet\<close> builds: four arrays of the matrices' length, filled by the loop.
\<close>

definition tileGridOptions :: "bool \<Rightarrow> TileMatrix list \<Rightarrow> TileGridOptions" where
  "tileGridOptions backwards matrices =
    (let len = length matrices
     in parseLoop backwards matrices 0
          \<lparr>origins = replicate len None,
           resolutions = replicate len None,
           sizes = replicate len None,
           tileSizes = replicate len None\<rparr>)"

text \<open>
  \<open>parseTileMatrixSet\<close>, closed over \<open>sourceInfo\<close> and the \<open>tileUrlTemplate\<close> that
  \<open>parseTileSetMetadata\<close> has selected.  The constructor call \<open>new TileGrid({...})\<close> is the
  parameter \<open>newTileGrid\<close>: applied to the options object it either fails an assertion
  (\<open>Inl\<close> of the assertion's code, raised as an \<open>AssertionError\<close>) or returns the grid; an
  exception of the constructor propagates out of \<open>parseTileMatrixSet\<close>.
\<close>

definition parseTileMatrixSet ::
  "(TileGridOptions \<Rightarrow> nat + 'g) \<Rightarrow> (string \<Rightarrow> Projection option) \<Rightarrow> (string \<Rightarrow> string \<Rightarrow> string)
    \<Rightarrow> SourceInfo \<Rightarrow> string \<Rightarrow> TileMatrixSet \<Rightarrow> error + 'g TileSetInfo" where
  "parseTileMatrixSet newTileGrid getProjection resolveUrl sourceInfo tileUrlTemplate tileMatrixSet =
    (case resolveProjection getProjection sourceInfo tileMatrixSet of
       Inl e \<Rightarrow> Inl e
     | Inr proj \<Rightarrow>
        (let backwards = (take 2 (axisOrientation proj) \<noteq> ''en'');
             matrices = tileMatrices tileMatrixSet
         in (case newTileGrid (tileGridOptions backwards matrices) of
               Inl code \<Rightarrow> Inl (AssertionError code)
             | Inr tileGrid \<Rightarrow>
                Inr \<lparr>grid = tileGrid,
                     urlTemplate = tileUrlTemplate,
                     urlFunction = tileUrlFunction resolveUrl matrices (callerContext sourceInfo)
                       (url sourceInfo) tileUrlTemplate\<rparr>)))"

declare parseLoop.simps [simp del]

section \<open>Properties of the link selectors\<close>

lemma known_map_own:
  "t \<in> set (map fst knownMapMediaTypes) \<Longrightarrow> toBoolean (getProp knownMapMediaTypes t)"
  by (auto simp: knownMapMediaTypes_def getProp_def)

lemma known_vector_own:
  "t \<in> set (map fst knownVectorMediaTypes) \<Longrightarrow> toBoolean (getProp knownVectorMediaTypes t)"
  by (auto simp: knownVectorMediaTypes_def getProp_def)

text \<open>Scanning a list in two parts: the second part runs only if the first did not \<open>break\<close>.\<close>

lemma mapLoop_append:
  "mapLoop (pre @ post) mt fb =
    (case mapLoop pre mt fb of (Some t, f) \<Rightarrow> (Some t, f) | (None, f) \<Rightarrow> mapLoop post mt f)"
  by (induction pre arbitrary: fb) auto

lemma vectorLoop_append:
  "vectorLoop (pre @ post) mt fb =
    (case vectorLoop pre mt fb of (Some t, f) \<Rightarrow> (Some t, f) | (None, f) \<Rightarrow> vectorLoop post mt f)"
  by (induction pre arbitrary: fb) auto

lemma mapLoop_exact:
  assumes "\<forall>p\<in>set pre. \<not> (rel p = ''item'' \<and> type p = mt)"
    and "rel l = ''item''" and "type l = mt"
  shows "fst (mapLoop (pre @ l # post) (Some mt) fb) = Some (href l)"
  using assms by (induction pre arbitrary: fb) auto

lemma vectorLoop_exact:
  assumes "\<forall>p\<in>set pre. \<not> (rel p = ''item'' \<and> type p = mt)"
    and "rel l = ''item''" and "type l = mt"
  shows "fst (vectorLoop (pre @ l # post) (Some mt) fb) = Some (href l)"
  using assms by (induction pre arbitrary: fb) auto

lemma mapLoop_no_exact:
  "\<forall>l\<in>set xs. rel l = ''item'' \<longrightarrow> Some (type l) \<noteq> mt \<Longrightarrow> fst (mapLoop xs mt fb) = None"
  by (induction xs arbitrary: fb) auto

lemma vectorLoop_no_exact:
  "\<forall>l\<in>set xs. rel l = ''item'' \<longrightarrow> Some (type l) \<noteq> mt \<Longrightarrow> fst (vectorLoop xs mt fb) = None"
  by (induction xs arbitrary: fb) auto

lemma mapLoop_keeps_fallback:
  assumes "f \<noteq> []"
    and "\<forall>l\<in>set post. rel l = ''item'' \<longrightarrow>
           Some (type l) \<noteq> mt \<and> \<not> toBoolean (getProp knownMapMediaTypes (type l))"
  shows "mapLoop post mt (Some f) = (None, Some f)"
  using assms by (induction post) auto

lemma vectorLoop_keeps_fallback:
  assumes "\<forall>l\<in>set post. rel l = ''item'' \<longrightarrow>
           Some (type l) \<noteq> mt \<and> \<not> toBoolean (getProp knownVectorMediaTypes (type l))"
  shows "vectorLoop post mt fb = (None, fb)"
  using assms by (induction post) auto

lemma mapLoop_nothing:
  assumes "\<forall>l\<in>set links. rel l = ''item'' \<longrightarrow>
           Some (type l) \<noteq> mt \<and> \<not> toBoolean (getProp knownMapMediaTypes (type l))
           \<and> \<not> indexOfIsZero (type l) ''image/''"
  shows "mapLoop links mt fb = (None, fb)"
  using assms by (induction links) auto

lemma selectTemplate_exact: "fst r = Some t \<Longrightarrow> t \<noteq> [] \<Longrightarrow> selectTemplate r = Inr t"
  by (cases r) (simp add: selectTemplate_def)

lemma selectTemplate_fallback: "f \<noteq> [] \<Longrightarrow> selectTemplate (None, Some f) = Inr f"
  by (simp add: selectTemplate_def)

lemma selectTemplate_none: "selectTemplate (None, None) = Inl (Error itemLinkMessage)"
  by (simp add: selectTemplate_def)

lemma stringIncludes_item: "stringIncludes itemLinkMessage ''item''"
  by (simp add: itemLinkMessage_def indexOfIsZero_def)

text \<open>
  Claim C1, as stated, fails: an ``item'' link whose type equals the preferred media
  type but whose href is the empty string is assigned to \<open>tileUrlTemplate\<close>, which the
  test \<open>if (!tileUrlTemplate)\<close> then treats as not found.  With no fallback recorded both
  selectors throw instead of returning that link's href.
\<close>

theorem exact_match_empty_href_counterexample:
  "getMapTileUrlTemplate [\<lparr>rel = ''item'', href = [], type = ''image/png''\<rparr>]
       (Some ''image/png'') = Inl (Error itemLinkMessage)
   \<and> getVectorTileUrlTemplate [\<lparr>rel = ''item'', href = [], type = ''application/geo+json''\<rparr>]
       (Some ''application/geo+json'') = Inl (Error itemLinkMessage)"
  by (simp add: getMapTileUrlTemplate_def getVectorTileUrlTemplate_def selectTemplate_def)

text \<open>
  Claim C1, amended: when a link list contains an ``item'' link whose type equals the
  preferred media type, and the first such link has a non-empty href, both
  \<open>getMapTileUrlTemplate\<close> and \<open>getVectorTileUrlTemplate\<close> return the href of that first
  link, whatever its position and whatever links (known fallback types included)
  precede it.
\<close>

theorem exact_match_returns_first_href:
  assumes "\<forall>p\<in>set pre. \<not> (rel p = ''item'' \<and> type p = mt)"
    and "rel l = ''item''" and "type l = mt" and "href l \<noteq> []"
  shows "getMapTileUrlTemplate (pre @ l # post) (Some mt) = Inr (href l)
       \<and> getVectorTileUrlTemplate (pre @ l # post) (Some mt) = Inr (href l)"
  using assms
  by (simp add: getMapTileUrlTemplate_def getVectorTileUrlTemplate_def
      selectTemplate_exact mapLoop_exact vectorLoop_exact)

theorem exact_match_returns_first_href_witness:
  "getMapTileUrlTemplate
      [\<lparr>rel = ''item'', href = ''a.jpg'', type = ''image/jpeg''\<rparr>,
       \<lparr>rel = ''item'', href = ''b.png'', type = ''image/png''\<rparr>,
       \<lparr>rel = ''item'', href = ''c.png'', type = ''image/png''\<rparr>]
      (Some ''image/png'') = Inr ''b.png''
   \<and> getVectorTileUrlTemplate
      [\<lparr>rel = ''item'', href = ''a.jpg'', type = ''image/jpeg''\<rparr>,
       \<lparr>rel = ''item'', href = ''b.png'', type = ''image/png''\<rparr>,
       \<lparr>rel = ''item'', href = ''c.png'', type = ''image/png''\<rparr>]
      (Some ''image/png'') = Inr ''b.png''"
  using exact_match_returns_first_href
    [of "[\<lparr>rel = ''item'', href = ''a.jpg'', type = ''image/jpeg''\<rparr>]" "''image/png''"
        "\<lparr>rel = ''item'', href = ''b.png'', type = ''image/png''\<rparr>"
        "[\<lparr>rel = ''item'', href = ''c.png'', type = ''image/png''\<rparr>]"]
  by simp

text \<open>
  Claim C2, as stated, fails: a known raster link with an empty href sets
  \<open>fallbackUrlTemplate\<close> to the empty string, which \<open>!fallbackUrlTemplate\<close> treats as
  not recorded, so a later link that merely begins with \<open>image/\<close> replaces it.
\<close>

theorem loose_image_replaces_empty_fallback_counterexample:
  "mapLoop [\<lparr>rel = ''item'', href = [], type = ''image/png''\<rparr>] None None = (None, Some [])
   \<and> mapLoop [\<lparr>rel = ''item'', href = [], type = ''image/png''\<rparr>,
              \<lparr>rel = ''item'', href = ''x.tiff'', type = ''image/tiff''\<rparr>] None None
       = (None, Some ''x.tiff'')
   \<and> getMapTileUrlTemplate [\<lparr>rel = ''item'', href = [], type = ''image/png''\<rparr>,
              \<lparr>rel = ''item'', href = ''x.tiff'', type = ''image/tiff''\<rparr>] None
       = Inr ''x.tiff''"
  by (simp add: getMapTileUrlTemplate_def selectTemplate_def getProp_def
      knownMapMediaTypes_def objectPrototype_def indexOfIsZero_def)

text \<open>
  Claim C2, amended: in \<open>getMapTileUrlTemplate\<close>, when no exact-match ``item'' link
  exists, a link whose type merely begins with \<open>image/\<close> is accepted as fallback only
  if no non-empty fallback has been recorded yet.  Once the scan of a prefix of the list
  has recorded a non-empty fallback \<open>f\<close> (in particular one set by a known raster type),
  no later link that is not in the lookup table replaces it, and \<open>f\<close> is the result.
\<close>

theorem loose_image_keeps_recorded_fallback:
  assumes "mapLoop pre mt None = (None, Some f)" and "f \<noteq> []"
    and "\<forall>l\<in>set post. rel l = ''item'' \<longrightarrow>
           Some (type l) \<noteq> mt \<and> \<not> toBoolean (getProp knownMapMediaTypes (type l))"
  shows "getMapTileUrlTemplate (pre @ post) mt = Inr f"
  using assms
  by (simp add: getMapTileUrlTemplate_def mapLoop_append mapLoop_keeps_fallback
      selectTemplate_fallback)

theorem loose_image_keeps_recorded_fallback_witness:
  "getMapTileUrlTemplate
      [\<lparr>rel = ''item'', href = ''a.png'', type = ''image/png''\<rparr>,
       \<lparr>rel = ''item'', href = ''x.tiff'', type = ''image/tiff''\<rparr>] None = Inr ''a.png''"
  using loose_image_keeps_recorded_fallback
    [of "[\<lparr>rel = ''item'', href = ''a.png'', type = ''image/png''\<rparr>]" None "''a.png''"
        "[\<lparr>rel = ''item'', href = ''x.tiff'', type = ''image/tiff''\<rparr>]"]
  by (simp add: getProp_def knownMapMediaTypes_def objectPrototype_def)

text \<open>
  Claim C3 does not hold of the code: \<open>knownVectorMediaTypes[link.type]\<close> is a property
  read on an object literal, so a link type that names a property inherited from
  \<open>Object.prototype\<close> (here \<open>toString\<close>) is truthy and its href becomes the fallback.
  The list below has no exact match and no known vector type, yet the selector returns
  instead of throwing.
\<close>

theorem vector_inherited_property_is_fallback:
  "getVectorTileUrlTemplate [\<lparr>rel = ''item'', href = ''x'', type = ''toString''\<rparr>]
      (Some ''application/geo+json'') = Inr ''x''"
  by (simp add: getVectorTileUrlTemplate_def selectTemplate_def getProp_def
      knownVectorMediaTypes_def objectPrototype_def)

text \<open>
  The failure path of the selectors: for the empty link list, and for every link list in
  which no ``item'' link has a type that equals the preferred media type, that the
  lookup table answers with a truthy value or (map selector) that begins with
  \<open>image/\<close>, the error \<open>Could not find "item" link\<close> is raised, and its message contains
  \<open>item\<close>.
\<close>

lemma no_item_link_raises:
  "((\<forall>l\<in>set links. rel l = ''item'' \<longrightarrow>
        Some (type l) \<noteq> mt \<and> \<not> toBoolean (getProp knownMapMediaTypes (type l))
        \<and> \<not> indexOfIsZero (type l) ''image/'') \<longrightarrow>
      getMapTileUrlTemplate links mt = Inl (Error itemLinkMessage))
   \<and> ((\<forall>l\<in>set links. rel l = ''item'' \<longrightarrow>
        Some (type l) \<noteq> mt \<and> \<not> toBoolean (getProp knownVectorMediaTypes (type l))) \<longrightarrow>
      getVectorTileUrlTemplate links mt = Inl (Error itemLinkMessage))
   \<and> getMapTileUrlTemplate [] mt = Inl (Error itemLinkMessage)
   \<and> getVectorTileUrlTemplate [] mt = Inl (Error itemLinkMessage)
   \<and> stringIncludes itemLinkMessage ''item''"
  by (simp add: getMapTileUrlTemplate_def getVectorTileUrlTemplate_def mapLoop_nothing
      vectorLoop_keeps_fallback selectTemplate_none stringIncludes_item)

text \<open>
  Claim C4 does not hold of the code.  The list below has a single ``item'' link whose
  type \<open>constructor\<close> is not the preferred media type, is in neither known set and does
  not begin with \<open>image/\<close>, so it has no exact-match and no fallback-eligible link and
  the claim says that both selectors raise the error.  But \<open>knownMapMediaTypes[link.type]\<close>
  and \<open>knownVectorMediaTypes[link.type]\<close> read the property \<open>constructor\<close> that every
  object literal inherits from \<open>Object.prototype\<close>, which is truthy: both selectors
  record the href as fallback and return it.
\<close>

theorem selectors_inherited_property_no_error:
  "''constructor'' \<noteq> ''image/png''
   \<and> \<not> indexOfIsZero ''constructor'' ''image/''
   \<and> ''constructor'' \<notin> set (map fst knownMapMediaTypes)
   \<and> ''constructor'' \<notin> set (map fst knownVectorMediaTypes)
   \<and> getMapTileUrlTemplate [\<lparr>rel = ''item'', href = ''x'', type = ''constructor''\<rparr>]
        (Some ''image/png'') = Inr ''x''
   \<and> getVectorTileUrlTemplate [\<lparr>rel = ''item'', href = ''x'', type = ''constructor''\<rparr>]
        (Some ''image/png'') = Inr ''x''"
  by (simp add: getMapTileUrlTemplate_def getVectorTileUrlTemplate_def selectTemplate_def
      getProp_def knownMapMediaTypes_def knownVectorMediaTypes_def objectPrototype_def
      indexOfIsZero_def)

text \<open>
  Claim C10, as stated, fails: when the last known-type link has an empty href, the
  recorded fallback is the empty string, which \<open>if (fallbackUrlTemplate)\<close> treats as
  absent; both selectors throw instead of returning that href.
\<close>

theorem last_known_empty_href_counterexample:
  "getMapTileUrlTemplate
      [\<lparr>rel = ''item'', href = ''a.png'', type = ''image/png''\<rparr>,
       \<lparr>rel = ''item'', href = [], type = ''image/jpeg''\<rparr>] None
     = Inl (Error itemLinkMessage)
   \<and> getVectorTileUrlTemplate
      [\<lparr>rel = ''item'', href = ''a.json'', type = ''application/geo+json''\<rparr>,
       \<lparr>rel = ''item'', href = [], type = ''application/vnd.mapbox-vector-tile''\<rparr>] None
     = Inl (Error itemLinkMessage)"
  by (simp add: getMapTileUrlTemplate_def getVectorTileUrlTemplate_def selectTemplate_def
      getProp_def knownMapMediaTypes_def knownVectorMediaTypes_def objectPrototype_def)

text \<open>
  Claim C10, amended: when no ``item'' link matches the preferred media type exactly,
  both selectors return the href of the last ``item'' link whose type is in the known
  fallback set, provided that href is non-empty and no later ``item'' link has a type
  that the lookup table answers with a truthy value (each later known-type link
  overwrites the recorded fallback).
\<close>

theorem last_known_fallback_wins:
  "((\<forall>l\<in>set (pre @ k # post). rel l = ''item'' \<longrightarrow> Some (type l) \<noteq> mt)
      \<and> rel k = ''item'' \<and> href k \<noteq> [] \<and> type k \<in> set (map fst knownMapMediaTypes)
      \<and> (\<forall>l\<in>set post. rel l = ''item'' \<longrightarrow>
            \<not> toBoolean (getProp knownMapMediaTypes (type l)))
     \<longrightarrow> getMapTileUrlTemplate (pre @ k # post) mt = Inr (href k))
   \<and> ((\<forall>l\<in>set (pre @ k # post). rel l = ''item'' \<longrightarrow> Some (type l) \<noteq> mt)
      \<and> rel k = ''item'' \<and> href k \<noteq> [] \<and> type k \<in> set (map fst knownVectorMediaTypes)
      \<and> (\<forall>l\<in>set post. rel l = ''item'' \<longrightarrow>
            \<not> toBoolean (getProp knownVectorMediaTypes (type l)))
     \<longrightarrow> getVectorTileUrlTemplate (pre @ k # post) mt = Inr (href k))"
proof (intro conjI impI)
  assume a: "(\<forall>l\<in>set (pre @ k # post). rel l = ''item'' \<longrightarrow> Some (type l) \<noteq> mt)
      \<and> rel k = ''item'' \<and> href k \<noteq> [] \<and> type k \<in> set (map fst knownMapMediaTypes)
      \<and> (\<forall>l\<in>set post. rel l = ''item'' \<longrightarrow>
            \<not> toBoolean (getProp knownMapMediaTypes (type l)))"
  then have "fst (mapLoop pre mt None) = None"
    by (intro mapLoop_no_exact) auto
  then obtain fb where pre: "mapLoop pre mt None = (None, fb)"
    by (cases "mapLoop pre mt None") auto
  from a have k: "mapLoop (k # post) mt fb = mapLoop post mt (Some (href k))"
    by (auto simp: known_map_own)
  from a have "mapLoop post mt (Some (href k)) = (None, Some (href k))"
    by (intro mapLoop_keeps_fallback) auto
  with pre k a show "getMapTileUrlTemplate (pre @ k # post) mt = Inr (href k)"
    by (simp add: getMapTileUrlTemplate_def mapLoop_append selectTemplate_fallback)
next
  assume a: "(\<forall>l\<in>set (pre @ k # post). rel l = ''item'' \<longrightarrow> Some (type l) \<noteq> mt)
      \<and> rel k = ''item'' \<and> href k \<noteq> [] \<and> type k \<in> set (map fst knownVectorMediaTypes)
      \<and> (\<forall>l\<in>set post. rel l = ''item'' \<longrightarrow>
            \<not> toBoolean (getProp knownVectorMediaTypes (type l)))"
  then have "fst (vectorLoop pre mt None) = None"
    by (intro vectorLoop_no_exact) auto
  then obtain fb where pre: "vectorLoop pre mt None = (None, fb)"
    by (cases "vectorLoop pre mt None") auto
  from a have k: "vectorLoop (k # post) mt fb = vectorLoop post mt (Some (href k))"
    by (auto simp: known_vector_own)
  from a have "vectorLoop post mt (Some (href k)) = (None, Some (href k))"
    by (intro vectorLoop_keeps_fallback) auto
  with pre k a show "getVectorTileUrlTemplate (pre @ k # post) mt = Inr (href k)"
    by (simp add: getVectorTileUrlTemplate_def vectorLoop_append selectTemplate_fallback)
qed

theorem last_known_fallback_wins_witness:
  "getMapTileUrlTemplate
      [\<lparr>rel = ''item'', href = ''a.png'', type = ''image/png''\<rparr>,
       \<lparr>rel = ''item'', href = ''b.jpg'', type = ''image/jpeg''\<rparr>,
       \<lparr>rel = ''item'', href = ''c.tiff'', type = ''image/tiff''\<rparr>] None = Inr ''b.jpg''
   \<and> getVectorTileUrlTemplate
      [\<lparr>rel = ''item'', href = ''a.mvt'', type = ''application/vnd.mapbox-vector-tile''\<rparr>,
       \<lparr>rel = ''item'', href = ''b.json'', type = ''application/geo+json''\<rparr>] None
     = Inr ''b.json''"
  using last_known_fallback_wins
    [of "[\<lparr>rel = ''item'', href = ''a.png'', type = ''image/png''\<rparr>]"
        "\<lparr>rel = ''item'', href = ''b.jpg'', type = ''image/jpeg''\<rparr>"
        "[\<lparr>rel = ''item'', href = ''c.tiff'', type = ''image/tiff''\<rparr>]" None]
    last_known_fallback_wins
    [of "[\<lparr>rel = ''item'', href = ''a.mvt'', type = ''application/vnd.mapbox-vector-tile''\<rparr>]"
        "\<lparr>rel = ''item'', href = ''b.json'', type = ''application/geo+json''\<rparr>"
        "[]" None]
  by (simp add: getProp_def knownMapMediaTypes_def knownVectorMediaTypes_def
      objectPrototype_def)

section \<open>Properties of the string functions\<close>

lemma indexOfIsZero_iff: "indexOfIsZero s p \<longleftrightarrow> (\<exists>post. s = p @ post)"
proof
  assume "indexOfIsZero s p"
  then have "s = p @ drop (length p) s"
    by (metis append_take_drop_id indexOfIsZero_def)
  then show "\<exists>post. s = p @ post" ..
next
  assume "\<exists>post. s = p @ post"
  then show "indexOfIsZero s p" by (auto simp: indexOfIsZero_def)
qed

lemma stringIncludes_iff: "stringIncludes s sub \<longleftrightarrow> (\<exists>pre post. s = pre @ sub @ post)"
proof (induction s)
  case Nil
  then show ?case by auto
next
  case (Cons c cs)
  show ?case
  proof
    assume "stringIncludes (c # cs) sub"
    then consider "indexOfIsZero (c # cs) sub" | "stringIncludes cs sub" by auto
    then show "\<exists>pre post. c # cs = pre @ sub @ post"
    proof cases
      case 1
      then obtain post where "c # cs = sub @ post" by (auto simp: indexOfIsZero_iff)
      then have "c # cs = [] @ sub @ post" by simp
      then show ?thesis by blast
    next
      case 2
      then obtain pre post where "cs = pre @ sub @ post" using Cons.IH by blast
      then have "c # cs = (c # pre) @ sub @ post" by simp
      then show ?thesis by blast
    qed
  next
    assume "\<exists>pre post. c # cs = pre @ sub @ post"
    then obtain pre post where e: "c # cs = pre @ sub @ post" by blast
    show "stringIncludes (c # cs) sub"
    proof (cases pre)
      case Nil
      with e have "indexOfIsZero (c # cs) sub" by (auto simp: indexOfIsZero_iff)
      then show ?thesis by simp
    next
      case (Cons d ds)
      with e have "cs = ds @ sub @ post" by simp
      then have "stringIncludes cs sub" using Cons.IH by blast
      then show ?thesis by simp
    qed
  qed
qed

lemma not_word_brace: "\<not> isWordChar (CHR ''}'')"
  by (simp add: isWordChar_def)

lemma matchPlaceholder_name:
  assumes "name \<noteq> []" and "\<forall>c\<in>set name. isWordChar c"
  shows "matchPlaceholder (CHR ''{'' # name @ CHR ''}'' # post) = Some (name, post)"
proof -
  have t: "takeWhile isWordChar (name @ CHR ''}'' # post) = name"
    using assms(2) by (simp add: takeWhile_append2 not_word_brace)
  have d: "dropWhile isWordChar (name @ CHR ''}'' # post) = CHR ''}'' # post"
    using assms(2) by (simp add: dropWhile_append2 not_word_brace)
  show ?thesis using assms(1) by (simp add: matchPlaceholder_def t d)
qed

lemma matchPlaceholder_other: "c \<noteq> CHR ''{'' \<Longrightarrow> matchPlaceholder (c # cs) = None"
  by (simp add: matchPlaceholder_def)

lemma replacePlaceholders_plain:
  "CHR ''{'' \<notin> set pre \<Longrightarrow> replacePlaceholders (pre @ s) f = pre @ replacePlaceholders s f"
  by (induction pre) (auto simp: matchPlaceholder_other)

lemma replacePlaceholders_placeholder:
  assumes "CHR ''{'' \<notin> set pre" and "name \<noteq> []" and "\<forall>c\<in>set name. isWordChar c"
  shows "replacePlaceholders (pre @ CHR ''{'' # name @ CHR ''}'' # post) f
         = pre @ toString (f name) @ replacePlaceholders post f"
  using assms by (simp add: replacePlaceholders_plain matchPlaceholder_name)

lemma getProp_own: "map_of obj key = Some v \<Longrightarrow> getProp obj key = v"
  by (simp add: getProp_def)

lemma getProp_unbound:
  "map_of obj key = None \<Longrightarrow> key \<notin> set (map fst objectPrototype) \<Longrightarrow> getProp obj key = Undefined"
  by (auto simp: getProp_def map_of_eq_None_iff[symmetric] split: option.splits)

lemma assign_caller_wins:
  "map_of c key = Some v \<Longrightarrow> getProp (assign target (Some c)) key = v"
  by (simp add: assign_def getProp_def)

lemma assign_default:
  "map_of c key = None \<Longrightarrow> getProp (assign target (Some c)) key = getProp target key"
  by (simp add: assign_def getProp_def map_add_def split: option.splits)

section \<open>Properties of the URL function\<close>

text \<open>
  On the integers of the model \<open>-y - 1\<close> does not wrap around: its value is the
  integer \<open>- sint y - 1\<close>, as that of the double computation is.
\<close>

lemma row_flip_exact: "sint (- y - 1 :: jsint) = - sint y - 1"
proof -
  have lo: "- (2 ^ 53) \<le> sint y" using sint_ge[of y] by simp
  have hi: "sint y < 2 ^ 53" using sint_lt[of y] by simp
  have "sint (not y) = signed_take_bit LENGTH(54) (not (sint y))"
    by (rule signed_not_eq)
  then have "sint (not y) = signed_take_bit 54 (not (sint y))" by simp
  also have "not (sint y) = - sint y - 1" by (simp add: not_int_def)
  also have "signed_take_bit 54 (- sint y - 1) = - sint y - 1"
    using lo hi by (intro signed_take_bit_int_eq_self) simp_all
  finally show ?thesis by (simp add: not_eq_complement)
qed

lemma getProp_computed:
  assumes "\<forall>c. ctx = Some c \<longrightarrow> map_of c key = None" and "map_of target key = Some v"
  shows "getProp (assign target ctx) key = v"
  using assms by (cases ctx) (simp_all add: assign_def getProp_def map_add_def)

text \<open>The test of the module's test suite: \<open>urlFunction([1, 2, 3])\<close> ends in \<open>/1/3/2.jpg\<close>.\<close>

lemma tileUrlFunction_test_case:
  "tileUrlFunction (\<lambda>base url. base @ url)
      [\<lparr>matrixId = ''0'', cellSize = 2, pointOfOrigin = [-180, 90], cornerOfOrigin = None,
        matrixWidth = 1, matrixHeight = 1, tileWidth = 256, tileHeight = 256\<rparr>,
       \<lparr>matrixId = ''1'', cellSize = 1, pointOfOrigin = [-180, 90], cornerOfOrigin = None,
        matrixWidth = 2, matrixHeight = 2, tileWidth = 256, tileHeight = 256\<rparr>]
      None ''https://maps.example'' ''/tiles/{tileMatrix}/{tileRow}/{tileCol}.jpg''
      (Some (1, 2, 3)) = Inr (Some ''https://maps.example/tiles/1/3/2.jpg'')"
  by (simp add: tileUrlFunction_def element_def BOTTOM_LEFT_ORIGIN_def assign_def
      matchPlaceholder_def isWordChar_def getProp_def objectPrototype_def
      numberToString_def decimal_def)

text \<open>
  Claim C5, as stated, fails: the computed entries \<open>tileCol\<close> and \<open>tileRow\<close> are overlaid
  by the caller's context (\<open>assign(localContext, context)\<close>), so with a caller context
  that has an entry \<open>tileRow\<close> the URL function substitutes the caller's value and not
  the row of the tile coordinate.
\<close>

theorem caller_context_replaces_tile_row_counterexample:
  "tileUrlFunction (\<lambda>base url. base @ url)
      [\<lparr>matrixId = ''0'', cellSize = 2, pointOfOrigin = [-180, 90], cornerOfOrigin = None,
        matrixWidth = 1, matrixHeight = 1, tileWidth = 256, tileHeight = 256\<rparr>]
      (Some [(''tileRow'', Str ''R'')]) ''https://maps.example''
      ''/tiles/{tileRow}/{tileCol}.jpg'' (Some (0, 2, 3))
     = Inr (Some ''https://maps.example/tiles/R/2.jpg'')"
  by (simp add: tileUrlFunction_def element_def BOTTOM_LEFT_ORIGIN_def assign_def
      matchPlaceholder_def isWordChar_def getProp_def objectPrototype_def
      numberToString_def decimal_def)

text \<open>
  Claim C5, amended: when the tile coordinate argument is absent the URL function
  returns \<open>undefined\<close> rather than failing.  For every tile coordinate \<open>[z, col, row]\<close> of
  integers (from \<open>-2^53\<close> up to \<open>2^53 - 1\<close>) with \<open>z\<close> a valid index into the matrix array, and
  a caller context that has no entry named \<open>tileCol\<close> or \<open>tileRow\<close>, the URL function
  substitutes \<open>tileCol = col\<close>, and \<open>tileRow = -row - 1\<close> when the matrix at index \<open>z\<close> has
  \<open>cornerOfOrigin\<close> \<open>bottomLeft\<close>, \<open>tileRow = row\<close> when it is \<open>topLeft\<close> or unset (or anything
  else).  The second conjunct states it for the substitution the template is filled
  from, the third for the URL of a template \<open>a{tileRow}b{tileCol}c\<close> with plain text
  \<open>a\<close>, \<open>b\<close>, \<open>c\<close>.
\<close>

theorem tileUrlFunction_row_and_column:
  "tileUrlFunction r ms ctx base tpl None = Inr None
   \<and> (0 \<le> sint z \<and> nat (sint z) < length ms
        \<and> (\<forall>entries. ctx = Some entries \<longrightarrow>
              map_of entries ''tileCol'' = None \<and> map_of entries ''tileRow'' = None)
      \<longrightarrow> (\<exists>substitution.
            tileUrlFunction r ms ctx base tpl (Some (z, col, row))
              = Inr (Some (r base (replacePlaceholders tpl substitution)))
            \<and> substitution ''tileCol'' = Num col
            \<and> (cornerOfOrigin (ms ! nat (sint z)) = Some ''bottomLeft''
                 \<longrightarrow> (\<exists>n. substitution ''tileRow'' = Num n \<and> sint n = - sint row - 1))
            \<and> (cornerOfOrigin (ms ! nat (sint z)) \<noteq> Some ''bottomLeft''
                 \<longrightarrow> substitution ''tileRow'' = Num row)))
   \<and> (0 \<le> sint z \<and> nat (sint z) < length ms
        \<and> (\<forall>entries. ctx = Some entries \<longrightarrow>
              map_of entries ''tileCol'' = None \<and> map_of entries ''tileRow'' = None)
        \<and> CHR ''{'' \<notin> set a \<and> CHR ''{'' \<notin> set b \<and> CHR ''{'' \<notin> set c
      \<longrightarrow> tileUrlFunction r ms ctx base (a @ ''{tileRow}'' @ b @ ''{tileCol}'' @ c)
            (Some (z, col, row))
          = Inr (Some (r base
              (a @ decimal (if cornerOfOrigin (ms ! nat (sint z)) = Some ''bottomLeft''
                            then - sint row - 1 else sint row)
                 @ b @ decimal (sint col) @ c))))"
proof (intro conjI impI)
  show "tileUrlFunction r ms ctx base tpl None = Inr None"
    by (simp add: tileUrlFunction_def)
next
  assume h: "0 \<le> sint z \<and> nat (sint z) < length ms
        \<and> (\<forall>entries. ctx = Some entries \<longrightarrow>
              map_of entries ''tileCol'' = None \<and> map_of entries ''tileRow'' = None)"
  let ?m = "ms ! nat (sint z)"
  let ?row = "if cornerOfOrigin ?m = Some ''bottomLeft'' then - row - 1 else row"
  let ?L = "assign [(''tileMatrix'', Str (matrixId ?m)), (''tileCol'', Num col),
                    (''tileRow'', Num ?row)] ctx"
  have res: "tileUrlFunction r ms ctx base tpl (Some (z, col, row))
      = Inr (Some (r base (replacePlaceholders tpl (getProp ?L))))"
    using h by (simp add: tileUrlFunction_def element_def BOTTOM_LEFT_ORIGIN_def Let_def)
  have col: "getProp ?L ''tileCol'' = Num col"
    using h by (intro getProp_computed) simp_all
  have row: "getProp ?L ''tileRow'' = Num ?row"
    using h by (intro getProp_computed) simp_all
  show "\<exists>substitution.
            tileUrlFunction r ms ctx base tpl (Some (z, col, row))
              = Inr (Some (r base (replacePlaceholders tpl substitution)))
            \<and> substitution ''tileCol'' = Num col
            \<and> (cornerOfOrigin (ms ! nat (sint z)) = Some ''bottomLeft''
                 \<longrightarrow> (\<exists>n. substitution ''tileRow'' = Num n \<and> sint n = - sint row - 1))
            \<and> (cornerOfOrigin (ms ! nat (sint z)) \<noteq> Some ''bottomLeft''
                 \<longrightarrow> substitution ''tileRow'' = Num row)"
  proof (cases "cornerOfOrigin ?m = Some ''bottomLeft''")
    case True
    with row have "getProp ?L ''tileRow'' = Num (- row - 1)" by simp
    with True res col show ?thesis
      by (intro exI[of _ "getProp ?L"]) (auto simp: row_flip_exact)
  next
    case False
    with row have "getProp ?L ''tileRow'' = Num row" by simp
    with False res col show ?thesis
      by (intro exI[of _ "getProp ?L"]) auto
  qed
next
  assume h: "0 \<le> sint z \<and> nat (sint z) < length ms
        \<and> (\<forall>entries. ctx = Some entries \<longrightarrow>
              map_of entries ''tileCol'' = None \<and> map_of entries ''tileRow'' = None)
        \<and> CHR ''{'' \<notin> set a \<and> CHR ''{'' \<notin> set b \<and> CHR ''{'' \<notin> set c"
  let ?m = "ms ! nat (sint z)"
  let ?row = "if cornerOfOrigin ?m = Some ''bottomLeft'' then - row - 1 else row"
  let ?L = "assign [(''tileMatrix'', Str (matrixId ?m)), (''tileCol'', Num col),
                    (''tileRow'', Num ?row)] ctx"
  let ?tpl = "a @ ''{tileRow}'' @ b @ ''{tileCol}'' @ c"
  have res: "tileUrlFunction r ms ctx base ?tpl (Some (z, col, row))
      = Inr (Some (r base (replacePlaceholders ?tpl (getProp ?L))))"
    using h by (simp add: tileUrlFunction_def element_def BOTTOM_LEFT_ORIGIN_def Let_def)
  have col: "getProp ?L ''tileCol'' = Num col"
    using h by (intro getProp_computed) simp_all
  have row: "getProp ?L ''tileRow'' = Num ?row"
    using h by (intro getProp_computed) simp_all
  have w1: "\<forall>ch\<in>set ''tileRow''. isWordChar ch" and w2: "\<forall>ch\<in>set ''tileCol''. isWordChar ch"
    by (simp_all add: isWordChar_def)
  have p1: "replacePlaceholders (a @ CHR ''{'' # ''tileRow'' @ CHR ''}'' # (b @ ''{tileCol}'' @ c))
              (getProp ?L)
            = a @ toString (getProp ?L ''tileRow'')
                @ replacePlaceholders (b @ ''{tileCol}'' @ c) (getProp ?L)"
    using h w1 by (intro replacePlaceholders_placeholder) simp_all
  have p2: "replacePlaceholders (b @ CHR ''{'' # ''tileCol'' @ CHR ''}'' # c) (getProp ?L)
            = b @ toString (getProp ?L ''tileCol'') @ replacePlaceholders c (getProp ?L)"
    using h w2 by (intro replacePlaceholders_placeholder) simp_all
  have p3: "replacePlaceholders c (getProp ?L) = c"
    using h replacePlaceholders_plain[of c "[]" "getProp ?L"] by simp
  have "replacePlaceholders ?tpl (getProp ?L)
      = a @ numberToString ?row @ b @ numberToString col @ c"
    using p1 p2 p3 col row by simp
  moreover have "numberToString ?row
      = decimal (if cornerOfOrigin ?m = Some ''bottomLeft'' then - sint row - 1 else sint row)"
    by (simp add: numberToString_def row_flip_exact)
  moreover have "numberToString col = decimal (sint col)"
    by (simp add: numberToString_def)
  ultimately show "tileUrlFunction r ms ctx base ?tpl (Some (z, col, row))
          = Inr (Some (r base
              (a @ decimal (if cornerOfOrigin (ms ! nat (sint z)) = Some ''bottomLeft''
                            then - sint row - 1 else sint row)
                 @ b @ decimal (sint col) @ c)))"
    using res by simp
qed

theorem tileUrlFunction_row_and_column_witness:
  "tileUrlFunction (\<lambda>base url. base @ url)
      [\<lparr>matrixId = ''0'', cellSize = 2, pointOfOrigin = [-180, 90], cornerOfOrigin = None,
        matrixWidth = 1, matrixHeight = 1, tileWidth = 256, tileHeight = 256\<rparr>,
       \<lparr>matrixId = ''1'', cellSize = 1, pointOfOrigin = [-180, -90],
        cornerOfOrigin = Some ''bottomLeft'',
        matrixWidth = 2, matrixHeight = 2, tileWidth = 256, tileHeight = 256\<rparr>]
      (Some [(''style'', Str ''default'')]) ''https://maps.example''
      ''/tiles/{tileRow}/{tileCol}.jpg''
      (Some (0, 2, 3)) = Inr (Some ''https://maps.example/tiles/3/2.jpg'')
   \<and> tileUrlFunction (\<lambda>base url. base @ url)
      [\<lparr>matrixId = ''0'', cellSize = 2, pointOfOrigin = [-180, 90], cornerOfOrigin = None,
        matrixWidth = 1, matrixHeight = 1, tileWidth = 256, tileHeight = 256\<rparr>,
       \<lparr>matrixId = ''1'', cellSize = 1, pointOfOrigin = [-180, -90],
        cornerOfOrigin = Some ''bottomLeft'',
        matrixWidth = 2, matrixHeight = 2, tileWidth = 256, tileHeight = 256\<rparr>]
      (Some [(''style'', Str ''default'')]) ''https://maps.example''
      ''/tiles/{tileRow}/{tileCol}.jpg''
      (Some (1, 2, 3)) = Inr (Some ''https://maps.example/tiles/-4/2.jpg'')"
  using tileUrlFunction_row_and_column
    [of "\<lambda>base url. base @ url"
        "[\<lparr>matrixId = ''0'', cellSize = 2, pointOfOrigin = [-180, 90], cornerOfOrigin = None,
           matrixWidth = 1, matrixHeight = 1, tileWidth = 256, tileHeight = 256\<rparr>,
          \<lparr>matrixId = ''1'', cellSize = 1, pointOfOrigin = [-180, -90],
           cornerOfOrigin = Some ''bottomLeft'',
           matrixWidth = 2, matrixHeight = 2, tileWidth = 256, tileHeight = 256\<rparr>]"
        "Some [(''style'', Str ''default'')]" "''https://maps.example''" "[]"
        0 2 3 "''/tiles/''" "''/''" "''.jpg''"]
    tileUrlFunction_row_and_column
    [of "\<lambda>base url. base @ url"
        "[\<lparr>matrixId = ''0'', cellSize = 2, pointOfOrigin = [-180, 90], cornerOfOrigin = None,
           matrixWidth = 1, matrixHeight = 1, tileWidth = 256, tileHeight = 256\<rparr>,
          \<lparr>matrixId = ''1'', cellSize = 1, pointOfOrigin = [-180, -90],
           cornerOfOrigin = Some ''bottomLeft'',
           matrixWidth = 2, matrixHeight = 2, tileWidth = 256, tileHeight = 256\<rparr>]"
        "Some [(''style'', Str ''default'')]" "''https://maps.example''" "[]"
        1 2 3 "''/tiles/''" "''/''" "''.jpg''"]
  by (simp add: decimal_def)

text \<open>
  Claim C6 does not hold of the code: \<open>localContext[p]\<close> is a property read on an
  object literal, so a placeholder that no context entry binds but that names a
  property inherited from \<open>Object.prototype\<close> is replaced by the text of that built-in
  and not by \<open>undefined\<close>.
\<close>

theorem placeholder_inherited_property_not_undefined:
  "tileUrlFunction r
      [\<lparr>matrixId = ''0'', cellSize = 2, pointOfOrigin = [-180, 90], cornerOfOrigin = None,
        matrixWidth = 1, matrixHeight = 1, tileWidth = 256, tileHeight = 256\<rparr>]
      None ''https://maps.example'' ''/tiles/{toString}/{tileRow}/{tileCol}.jpg''
      (Some (0, 2, 3))
     = Inr (Some (r ''https://maps.example''
          ''/tiles/function toString() { [native code] }/3/2.jpg''))"
  by (simp add: tileUrlFunction_def element_def BOTTOM_LEFT_ORIGIN_def assign_def
      matchPlaceholder_def isWordChar_def getProp_def objectPrototype_def
      numberToString_def decimal_def)

section \<open>Properties of the tile matrix set parser\<close>

lemma arraySet_length: "i < length xs \<Longrightarrow> length (arraySet xs i v) = length xs"
  by (simp add: arraySet_def)

lemma arraySet_nth:
  "i < length xs \<Longrightarrow> j < length xs \<Longrightarrow> arraySet xs i v ! j = (if j = i then Some v else xs ! j)"
  by (simp add: arraySet_def)

text \<open>
  The loop invariant: started at index \<open>i\<close> on arrays of the matrices' length, the loop
  keeps the four lengths, leaves every entry below \<open>i\<close> as it was and fills every entry
  from \<open>i\<close> on from the matrix of the same index.
\<close>

lemma parseLoop_invariant:
  assumes "length (origins a) = length ms" and "length (resolutions a) = length ms"
    and "length (sizes a) = length ms" and "length (tileSizes a) = length ms"
  shows "length (origins (parseLoop b ms i a)) = length ms
       \<and> length (resolutions (parseLoop b ms i a)) = length ms
       \<and> length (sizes (parseLoop b ms i a)) = length ms
       \<and> length (tileSizes (parseLoop b ms i a)) = length ms
       \<and> (\<forall>j<length ms.
            origins (parseLoop b ms i a) ! j =
              (if i \<le> j then Some (if b then [element (pointOfOrigin (ms ! j)) 1,
                                              element (pointOfOrigin (ms ! j)) 0]
                                    else map Some (pointOfOrigin (ms ! j)))
               else origins a ! j)
          \<and> resolutions (parseLoop b ms i a) ! j =
              (if i \<le> j then Some (cellSize (ms ! j)) else resolutions a ! j)
          \<and> sizes (parseLoop b ms i a) ! j =
              (if i \<le> j then Some [matrixWidth (ms ! j), matrixHeight (ms ! j)]
               else sizes a ! j)
          \<and> tileSizes (parseLoop b ms i a) ! j =
              (if i \<le> j then Some [tileWidth (ms ! j), tileHeight (ms ! j)]
               else tileSizes a ! j))"
  using assms
proof (induction b ms i a rule: parseLoop.induct)
  case (1 backwards matrices i arrays)
  show ?case
  proof (cases "i < length matrices")
    case False
    then show ?thesis using "1.prems" by (simp add: parseLoop.simps)
  next
    case True
    let ?a' = "\<lparr>origins = arraySet (origins arrays) i
                 (if backwards then [element (pointOfOrigin (matrices ! i)) 1,
                                     element (pointOfOrigin (matrices ! i)) 0]
                  else map Some (pointOfOrigin (matrices ! i))),
              resolutions = arraySet (resolutions arrays) i (cellSize (matrices ! i)),
              sizes = arraySet (sizes arrays) i
                 [matrixWidth (matrices ! i), matrixHeight (matrices ! i)],
              tileSizes = arraySet (tileSizes arrays) i
                 [tileWidth (matrices ! i), tileHeight (matrices ! i)]\<rparr>"
    have step: "parseLoop backwards matrices i arrays = parseLoop backwards matrices (Suc i) ?a'"
      using True by (subst parseLoop.simps) (simp add: Let_def)
    have ih: "length (origins (parseLoop backwards matrices (Suc i) ?a')) = length matrices
       \<and> length (resolutions (parseLoop backwards matrices (Suc i) ?a')) = length matrices
       \<and> length (sizes (parseLoop backwards matrices (Suc i) ?a')) = length matrices
       \<and> length (tileSizes (parseLoop backwards matrices (Suc i) ?a')) = length matrices
       \<and> (\<forall>j<length matrices.
            origins (parseLoop backwards matrices (Suc i) ?a') ! j =
              (if Suc i \<le> j
               then Some (if backwards then [element (pointOfOrigin (matrices ! j)) 1,
                                            element (pointOfOrigin (matrices ! j)) 0]
                          else map Some (pointOfOrigin (matrices ! j)))
               else origins ?a' ! j)
          \<and> resolutions (parseLoop backwards matrices (Suc i) ?a') ! j =
              (if Suc i \<le> j then Some (cellSize (matrices ! j)) else resolutions ?a' ! j)
          \<and> sizes (parseLoop backwards matrices (Suc i) ?a') ! j =
              (if Suc i \<le> j then Some [matrixWidth (matrices ! j), matrixHeight (matrices ! j)]
               else sizes ?a' ! j)
          \<and> tileSizes (parseLoop backwards matrices (Suc i) ?a') ! j =
              (if Suc i \<le> j then Some [tileWidth (matrices ! j), tileHeight (matrices ! j)]
               else tileSizes ?a' ! j))"
      using True "1.prems"
      by (intro "1.IH"[OF True refl refl]) (simp_all add: arraySet_length)
    show ?thesis
      unfolding step using ih True "1.prems"
      by (auto simp: arraySet_nth not_less_eq_eq)
  qed
qed

text \<open>
  The options object built by \<open>parseTileMatrixSet\<close>: four arrays of the matrices' length,
  the entry at each index filled from the matrix at that index.
\<close>

lemma tileGridOptions_aligned:
  "length (origins (tileGridOptions b ms)) = length ms
   \<and> length (resolutions (tileGridOptions b ms)) = length ms
   \<and> length (sizes (tileGridOptions b ms)) = length ms
   \<and> length (tileSizes (tileGridOptions b ms)) = length ms
   \<and> (\<forall>j<length ms.
        origins (tileGridOptions b ms) ! j =
          Some (if b then [element (pointOfOrigin (ms ! j)) 1, element (pointOfOrigin (ms ! j)) 0]
                else map Some (pointOfOrigin (ms ! j)))
      \<and> resolutions (tileGridOptions b ms) ! j = Some (cellSize (ms ! j))
      \<and> sizes (tileGridOptions b ms) ! j = Some [matrixWidth (ms ! j), matrixHeight (ms ! j)]
      \<and> tileSizes (tileGridOptions b ms) ! j = Some [tileWidth (ms ! j), tileHeight (ms ! j)])"
  unfolding tileGridOptions_def Let_def
  using parseLoop_invariant
    [of "\<lparr>origins = replicate (length ms) None, resolutions = replicate (length ms) None,
          sizes = replicate (length ms) None, tileSizes = replicate (length ms) None\<rparr>"
        ms b 0]
  by simp

text \<open>
  When \<open>parseTileMatrixSet\<close> returns, the projection was resolved and the grid is what
  the constructor made of the options object.
\<close>

lemma parseTileMatrixSet_returns:
  assumes "parseTileMatrixSet n g r si tpl tms = Inr info"
  shows "\<exists>proj. resolveProjection g si tms = Inr proj
      \<and> n (tileGridOptions (take 2 (axisOrientation proj) \<noteq> ''en'') (tileMatrices tms))
          = Inr (grid info)"
  using assms
  by (auto simp: parseTileMatrixSet_def Let_def split: sum.splits)

text \<open>
  Claim C7: for every tile matrix set parsed with a projection whose axis-orientation
  string does not begin with \<open>en\<close>, the resulting grid is constructed from origins that
  are, at each level, the source \<open>pointOfOrigin\<close> \<open>[x, y]\<close> with its two components
  swapped, \<open>[y, x]\<close>; when the orientation begins with \<open>en\<close>, each origin is handed over
  unchanged.
\<close>

theorem parse_origin_axis_order:
  assumes "resolveProjection g si tms = Inr proj"
    and "parseTileMatrixSet n g r si tpl tms = Inr info"
    and "i < length (tileMatrices tms)"
  shows "\<exists>opts. opts = tileGridOptions (take 2 (axisOrientation proj) \<noteq> ''en'') (tileMatrices tms)
      \<and> n opts = Inr (grid info)
      \<and> (take 2 (axisOrientation proj) \<noteq> ''en'' \<longrightarrow>
           (\<forall>x y. pointOfOrigin (tileMatrices tms ! i) = [x, y] \<longrightarrow>
              origins opts ! i = Some [Some y, Some x]))
      \<and> (take 2 (axisOrientation proj) = ''en'' \<longrightarrow>
           origins opts ! i = Some (map Some (pointOfOrigin (tileMatrices tms ! i))))"
proof -
  let ?opts = "tileGridOptions (take 2 (axisOrientation proj) \<noteq> ''en'') (tileMatrices tms)"
  from parseTileMatrixSet_returns[OF assms(2)] assms(1)
  have made: "n ?opts = Inr (grid info)" by auto
  from tileGridOptions_aligned[of "take 2 (axisOrientation proj) \<noteq> ''en''" "tileMatrices tms"]
    assms(3)
  have "origins ?opts ! i =
          Some (if take 2 (axisOrientation proj) \<noteq> ''en''
                then [element (pointOfOrigin (tileMatrices tms ! i)) 1,
                      element (pointOfOrigin (tileMatrices tms ! i)) 0]
                else map Some (pointOfOrigin (tileMatrices tms ! i)))"
    by blast
  with made show ?thesis by (auto simp: element_def)
qed

theorem parse_origin_axis_order_witness:
  "(\<exists>info. parseTileMatrixSet (\<lambda>options. Inr options) (\<lambda>c. None) (\<lambda>base url. base @ url)
        \<lparr>url = ''https://maps.example/tiles'', mediaType = None,
         projection = Some \<lparr>axisOrientation = ''neu''\<rparr>, callerContext = None\<rparr>
        ''/tiles/{tileMatrix}/{tileRow}/{tileCol}.png''
        \<lparr>setId = ''WorldCRS84Quad'', crs = ''EPSG:4326'', tileMatrices =
          [\<lparr>matrixId = ''0'', cellSize = 2, pointOfOrigin = [90, -180], cornerOfOrigin = None,
            matrixWidth = 2, matrixHeight = 1, tileWidth = 256, tileHeight = 256\<rparr>]\<rparr>
        = Inr info
      \<and> origins (grid info) ! 0 = Some [Some (-180), Some 90])"
proof -
  let ?si = "\<lparr>url = ''https://maps.example/tiles'', mediaType = None,
         projection = Some \<lparr>axisOrientation = ''neu''\<rparr>, callerContext = None\<rparr>"
  let ?tms = "\<lparr>setId = ''WorldCRS84Quad'', crs = ''EPSG:4326'', tileMatrices =
          [\<lparr>matrixId = ''0'', cellSize = 2, pointOfOrigin = [90, -180], cornerOfOrigin = None,
            matrixWidth = 2, matrixHeight = 1, tileWidth = 256, tileHeight = 256\<rparr>]\<rparr>"
  let ?p = "parseTileMatrixSet (\<lambda>options. Inr options) (\<lambda>c. None) (\<lambda>base url. base @ url)
        ?si ''/tiles/{tileMatrix}/{tileRow}/{tileCol}.png'' ?tms"
  have proj: "resolveProjection (\<lambda>c. None) ?si ?tms = Inr \<lparr>axisOrientation = ''neu''\<rparr>"
    by (simp add: resolveProjection_def)
  have "\<exists>info. ?p = Inr info"
    by (simp add: parseTileMatrixSet_def proj Let_def)
  then obtain info where i: "?p = Inr info" by blast
  have "origins (grid info) ! 0 = Some [Some (-180), Some 90]"
    using parse_origin_axis_order[OF proj i, of 0] by auto
  with i show ?thesis by blast
qed

text \<open>
  Claim C8: parsing a tile matrix set uses the caller-supplied projection when one is
  given; the registry and the matrix set's \<open>crs\<close> then have no influence on the result,
  so they cannot make it fail.  Parsing fails with the error \<open>Unsupported CRS: \<close>
  followed by the CRS identifier exactly when no projection is supplied and the registry
  lookup of the matrix set's \<open>crs\<close> returns nothing.
\<close>

theorem parse_projection_resolution:
  "(projection si = Some p \<longrightarrow>
      resolveProjection g si tms = Inr p
      \<and> parseTileMatrixSet n g r si tpl tms = parseTileMatrixSet n g' r si tpl (tms\<lparr>crs := c\<rparr>)
      \<and> parseTileMatrixSet n g r si tpl tms \<noteq> Inl (Error (''Unsupported CRS: '' @ crs tms)))
   \<and> ((parseTileMatrixSet n g r si tpl tms = Inl (Error (''Unsupported CRS: '' @ crs tms)))
        = (projection si = None \<and> g (crs tms) = None))"
  by (auto simp: parseTileMatrixSet_def resolveProjection_def Let_def
      split: option.splits sum.splits)

theorem parse_projection_resolution_witness:
  "parseTileMatrixSet (\<lambda>options. Inr options) (\<lambda>c. None) (\<lambda>base url. base @ url)
      \<lparr>url = ''https://maps.example/tiles'', mediaType = None,
       projection = Some \<lparr>axisOrientation = ''enu''\<rparr>, callerContext = None\<rparr>
      ''/tiles/{tileMatrix}/{tileRow}/{tileCol}.png''
      \<lparr>setId = ''Custom'', crs = ''urn:unknown'', tileMatrices = []\<rparr>
    = parseTileMatrixSet (\<lambda>options. Inr options) (\<lambda>c. Some \<lparr>axisOrientation = ''neu''\<rparr>)
      (\<lambda>base url. base @ url)
      \<lparr>url = ''https://maps.example/tiles'', mediaType = None,
       projection = Some \<lparr>axisOrientation = ''enu''\<rparr>, callerContext = None\<rparr>
      ''/tiles/{tileMatrix}/{tileRow}/{tileCol}.png''
      \<lparr>setId = ''Custom'', crs = ''EPSG:4326'', tileMatrices = []\<rparr>
   \<and> parseTileMatrixSet (\<lambda>options. Inr options) (\<lambda>c. None) (\<lambda>base url. base @ url)
      \<lparr>url = ''https://maps.example/tiles'', mediaType = None,
       projection = None, callerContext = None\<rparr>
      ''/tiles/{tileMatrix}/{tileRow}/{tileCol}.png''
      \<lparr>setId = ''Custom'', crs = ''urn:unknown'', tileMatrices = []\<rparr>
    = Inl (Error ''Unsupported CRS: urn:unknown'')"
  using parse_projection_resolution
    [of "\<lparr>url = ''https://maps.example/tiles'', mediaType = None,
          projection = Some \<lparr>axisOrientation = ''enu''\<rparr>, callerContext = None\<rparr>"
        "\<lparr>axisOrientation = ''enu''\<rparr>" "\<lambda>c. None"
        "\<lparr>setId = ''Custom'', crs = ''urn:unknown'', tileMatrices = []\<rparr>"
        "\<lambda>options. Inr options :: nat + TileGridOptions"
        "\<lambda>base url. base @ url"
        "''/tiles/{tileMatrix}/{tileRow}/{tileCol}.png''"
        "\<lambda>c. Some \<lparr>axisOrientation = ''neu''\<rparr>" "''EPSG:4326''"]
    parse_projection_resolution
    [of "\<lparr>url = ''https://maps.example/tiles'', mediaType = None,
          projection = None, callerContext = None\<rparr>"
        "\<lparr>axisOrientation = ''enu''\<rparr>" "\<lambda>c. None"
        "\<lparr>setId = ''Custom'', crs = ''urn:unknown'', tileMatrices = []\<rparr>"
        "\<lambda>options. Inr options :: nat + TileGridOptions"
        "\<lambda>base url. base @ url"
        "''/tiles/{tileMatrix}/{tileRow}/{tileCol}.png''"
        "\<lambda>c. None" "''urn:unknown''"]
  by simp

text \<open>
  Claim C9: for every parsed tile matrix set, the four per-level arrays handed to the
  tile grid constructor (\<open>origins\<close>, \<open>resolutions\<close>, \<open>sizes\<close>, \<open>tileSizes\<close>) each have
  length \<open>tileMatrices.length\<close>, and the entry at index \<open>i\<close> of each array is derived from
  the tile matrix at index \<open>i\<close>: its origin (as it is or with the first two components
  swapped), its cell size, its matrix width and height, its tile width and height.
\<close>

theorem parse_arrays_aligned:
  assumes "parseTileMatrixSet n g r si tpl tms = Inr info"
  shows "\<exists>opts. (\<exists>backwards. opts = tileGridOptions backwards (tileMatrices tms))
       \<and> n opts = Inr (grid info)
       \<and> length (origins opts) = length (tileMatrices tms)
       \<and> length (resolutions opts) = length (tileMatrices tms)
       \<and> length (sizes opts) = length (tileMatrices tms)
       \<and> length (tileSizes opts) = length (tileMatrices tms)
       \<and> (\<forall>i<length (tileMatrices tms).
            (origins opts ! i = Some (map Some (pointOfOrigin (tileMatrices tms ! i)))
              \<or> origins opts ! i =
                  Some [element (pointOfOrigin (tileMatrices tms ! i)) 1,
                        element (pointOfOrigin (tileMatrices tms ! i)) 0])
          \<and> resolutions opts ! i = Some (cellSize (tileMatrices tms ! i))
          \<and> sizes opts ! i =
              Some [matrixWidth (tileMatrices tms ! i), matrixHeight (tileMatrices tms ! i)]
          \<and> tileSizes opts ! i =
              Some [tileWidth (tileMatrices tms ! i), tileHeight (tileMatrices tms ! i)])"
proof -
  obtain proj
    where "resolveProjection g si tms = Inr proj"
      and made: "n (tileGridOptions (take 2 (axisOrientation proj) \<noteq> ''en'') (tileMatrices tms))
          = Inr (grid info)"
    using parseTileMatrixSet_returns[OF assms] by (elim exE conjE)
  let ?b = "take 2 (axisOrientation proj) \<noteq> ''en''"
  let ?opts = "tileGridOptions ?b (tileMatrices tms)"
  have "(\<exists>backwards. ?opts = tileGridOptions backwards (tileMatrices tms))" by blast
  moreover note made
  moreover from tileGridOptions_aligned[of ?b "tileMatrices tms"]
  have "length (origins ?opts) = length (tileMatrices tms)
       \<and> length (resolutions ?opts) = length (tileMatrices tms)
       \<and> length (sizes ?opts) = length (tileMatrices tms)
       \<and> length (tileSizes ?opts) = length (tileMatrices tms)
       \<and> (\<forall>i<length (tileMatrices tms).
            (origins ?opts ! i = Some (map Some (pointOfOrigin (tileMatrices tms ! i)))
              \<or> origins ?opts ! i =
                  Some [element (pointOfOrigin (tileMatrices tms ! i)) 1,
                        element (pointOfOrigin (tileMatrices tms ! i)) 0])
          \<and> resolutions ?opts ! i = Some (cellSize (tileMatrices tms ! i))
          \<and> sizes ?opts ! i =
              Some [matrixWidth (tileMatrices tms ! i), matrixHeight (tileMatrices tms ! i)]
          \<and> tileSizes ?opts ! i =
              Some [tileWidth (tileMatrices tms ! i), tileHeight (tileMatrices tms ! i)])"
    by (cases ?b) simp_all
  ultimately show ?thesis by blast
qed

theorem parse_arrays_aligned_witness:
  "\<exists>info. parseTileMatrixSet (\<lambda>options. Inr options) (\<lambda>c. None) (\<lambda>base url. base @ url)
        \<lparr>url = ''https://maps.example/tiles'', mediaType = None,
         projection = Some \<lparr>axisOrientation = ''enu''\<rparr>, callerContext = None\<rparr>
        ''/tiles/{tileMatrix}/{tileRow}/{tileCol}.png''
        \<lparr>setId = ''WorldCRS84Quad'', crs = ''EPSG:4326'', tileMatrices =
          [\<lparr>matrixId = ''0'', cellSize = 2, pointOfOrigin = [-180, 90], cornerOfOrigin = None,
            matrixWidth = 2, matrixHeight = 1, tileWidth = 256, tileHeight = 256\<rparr>,
           \<lparr>matrixId = ''1'', cellSize = 1, pointOfOrigin = [-180, 90], cornerOfOrigin = None,
            matrixWidth = 4, matrixHeight = 2, tileWidth = 512, tileHeight = 512\<rparr>]\<rparr>
        = Inr info
      \<and> length (origins (grid info)) = 2 \<and> length (resolutions (grid info)) = 2
      \<and> length (sizes (grid info)) = 2 \<and> length (tileSizes (grid info)) = 2
      \<and> resolutions (grid info) ! 0 = Some 2 \<and> resolutions (grid info) ! 1 = Some 1
      \<and> sizes (grid info) ! 0 = Some [2, 1] \<and> sizes (grid info) ! 1 = Some [4, 2]
      \<and> tileSizes (grid info) ! 0 = Some [256, 256]
      \<and> tileSizes (grid info) ! 1 = Some [512, 512]"
proof -
  let ?tms = "\<lparr>setId = ''WorldCRS84Quad'', crs = ''EPSG:4326'', tileMatrices =
          [\<lparr>matrixId = ''0'', cellSize = 2, pointOfOrigin = [-180, 90], cornerOfOrigin = None,
            matrixWidth = 2, matrixHeight = 1, tileWidth = 256, tileHeight = 256\<rparr>,
           \<lparr>matrixId = ''1'', cellSize = 1, pointOfOrigin = [-180, 90], cornerOfOrigin = None,
            matrixWidth = 4, matrixHeight = 2, tileWidth = 512, tileHeight = 512\<rparr>]\<rparr>"
  let ?p = "parseTileMatrixSet (\<lambda>options. Inr options) (\<lambda>c. None) (\<lambda>base url. base @ url)
        \<lparr>url = ''https://maps.example/tiles'', mediaType = None,
         projection = Some \<lparr>axisOrientation = ''enu''\<rparr>, callerContext = None\<rparr>
        ''/tiles/{tileMatrix}/{tileRow}/{tileCol}.png'' ?tms"
  have "\<exists>info. ?p = Inr info"
    by (simp add: parseTileMatrixSet_def resolveProjection_def Let_def)
  then obtain info where i: "?p = Inr info" by blast
  have n: "(0::nat) < 2" "(1::nat) < 2" by simp_all
  from parse_arrays_aligned[OF i] n
  have "length (origins (grid info)) = 2 \<and> length (resolutions (grid info)) = 2
      \<and> length (sizes (grid info)) = 2 \<and> length (tileSizes (grid info)) = 2
      \<and> resolutions (grid info) ! 0 = Some 2 \<and> resolutions (grid info) ! 1 = Some 1
      \<and> sizes (grid info) ! 0 = Some [2, 1] \<and> sizes (grid info) ! 1 = Some [4, 2]
      \<and> tileSizes (grid info) ! 0 = Some [256, 256]
      \<and> tileSizes (grid info) ! 1 = Some [512, 512]"
    by fastforce
  with i show ?thesis by blast
qed

end
